theory Spec2Isabelle
  imports Main
begin

section \<open>ScopeResolver: \<^verbatim>\<open>buildScopesFromEndpoints\<close> (src/src/auth.ts, lines 9-78)\<close>

text \<open>
  An entry of the operation catalog (\<^verbatim>\<open>interface EndpointConfig\<close>). The two optional
  fields are options; the AuthManager below has a field \<^verbatim>\<open>scopes\<close> of its own, so
  the catalog entry's field is \<open>endpoint_scopes\<close>, and its \<^verbatim>\<open>method\<close> is \<open>http_method\<close>.
\<close>

record EndpointConfig =
  pathPattern :: string
  http_method :: string
  toolName :: string
  endpoint_scopes :: "string list option"
  requiresWorkAccount :: "bool option"

text \<open>
  A JavaScript \<^verbatim>\<open>Set<string>\<close> keeps its members in insertion order and
  \<^verbatim>\<open>Array.from\<close> returns them in that order: the set is a list without repetitions.
\<close>

definition set_has :: "string \<Rightarrow> string list \<Rightarrow> bool" where
  "set_has x s = (x \<in> set s)"

definition set_add :: "string \<Rightarrow> string list \<Rightarrow> string list" where
  "set_add x s = (if x \<in> set s then s else s @ [x])"

definition set_delete :: "string \<Rightarrow> string list \<Rightarrow> string list" where
  "set_delete x s = removeAll x s"

text \<open>\<^verbatim>\<open>const SCOPE_HIERARCHY\<close>, in the order \<^verbatim>\<open>Object.entries\<close> lists it.\<close>

definition SCOPE_HIERARCHY :: "(string \<times> string list) list" where
  "SCOPE_HIERARCHY =
    [(''Mail.ReadWrite'', [''Mail.Read'']),
     (''Calendars.ReadWrite'', [''Calendars.Read'']),
     (''Files.ReadWrite'', [''Files.Read'']),
     (''Tasks.ReadWrite'', [''Tasks.Read'']),
     (''Contacts.ReadWrite'', [''Contacts.Read''])]"

text \<open>The body of the first \<^verbatim>\<open>forEach\<close> (lines 56-64), for one catalog entry.\<close>

definition endpoint_step :: "bool \<Rightarrow> string list \<Rightarrow> EndpointConfig \<Rightarrow> string list" where
  "endpoint_step includeWorkAccountScopes scopesSet endpoint =
    (if requiresWorkAccount endpoint = Some True \<and> \<not> includeWorkAccountScopes then scopesSet
     else (case endpoint_scopes endpoint of
             None \<Rightarrow> scopesSet
           | Some ss \<Rightarrow> foldl (\<lambda>s scope. set_add scope s) scopesSet ss))"

text \<open>The body of the second \<^verbatim>\<open>forEach\<close> (lines 66-71), for one table entry.\<close>

definition hierarchy_step :: "string list \<Rightarrow> string \<times> string list \<Rightarrow> string list" where
  "hierarchy_step scopesSet entry =
    (case entry of (higherScope, lowerScopes) \<Rightarrow>
      (if list_all (\<lambda>scope. set_has scope scopesSet) lowerScopes
       then set_add higherScope (foldl (\<lambda>s scope. set_delete scope s) scopesSet lowerScopes)
       else scopesSet))"

text \<open>
  \<^verbatim>\<open>buildScopesFromEndpoints\<close>. The catalog \<^verbatim>\<open>endpoints.default\<close> is read from
  \<^verbatim>\<open>endpoints.json\<close> when the module is loaded; here it is the first argument.
\<close>

definition buildScopesFromEndpoints :: "EndpointConfig list \<Rightarrow> bool \<Rightarrow> string list" where
  "buildScopesFromEndpoints endpoints includeWorkAccountScopes =
    foldl hierarchy_step
      (foldl (endpoint_step includeWorkAccountScopes) [] endpoints)
      SCOPE_HIERARCHY"

definition buildAllScopes :: "EndpointConfig list \<Rightarrow> string list" where
  "buildAllScopes endpoints = buildScopesFromEndpoints endpoints True"

section \<open>The collaborators of \<^verbatim>\<open>AuthManager\<close>\<close>

text \<open>
  \<^verbatim>\<open>AccountInfo\<close> and \<^verbatim>\<open>AuthenticationResult\<close> of the identity provider's client
  library, with the fields the manager reads. A JavaScript number is an integer or
  \<^verbatim>\<open>NaN\<close> here (times are milliseconds); \<open>expiresOn\<close> is \<^verbatim>\<open>Date | null\<close>, a date
  being its time value, which is \<^verbatim>\<open>NaN\<close> for an invalid date.
\<close>

record AccountInfo =
  homeAccountId :: string
  username :: string

datatype js_error = Error string | ReferenceError string

datatype jsnum = NaN | Num int

record AuthenticationResult =
  result_accessToken :: string
  expiresOn :: "jsnum option"
  result_account :: "AccountInfo option"

text \<open>The provider client's in-memory token cache: its accounts and opaque credentials.\<close>

record msal_cache =
  accounts :: "AccountInfo list"
  credentials :: string

datatype keytar_call =
    GetPassword string string
  | SetPassword string string string
  | DeletePassword string string

text \<open>The calls the manager makes to the provider client and to the vault, in order.\<close>

datatype call =
    GetAllAccounts
  | AcquireTokenSilent AccountInfo "string list"
  | AcquireTokenByDeviceCode "string list"
  | RemoveAccount AccountInfo
  | Serialize
  | Keytar keytar_call

text \<open>
  What the manager cannot decide: the answers of the provider (network), the faults of
  the provider's cache and of the vault, the two serialisers, and the catalog loaded with
  the module. A vault call with an error throws it and changes nothing.
\<close>

record collaborators =
  endpoints_default :: "EndpointConfig list"
  msal_acquireTokenSilent ::
    "AccountInfo \<Rightarrow> string list \<Rightarrow> msal_cache \<Rightarrow> (js_error + AuthenticationResult) \<times> msal_cache"
  msal_acquireTokenByDeviceCode ::
    "string list \<Rightarrow> msal_cache \<Rightarrow> (js_error + AuthenticationResult option) \<times> msal_cache"
  msal_removeAccount_error :: "AccountInfo \<Rightarrow> msal_cache \<Rightarrow> js_error option"
  msal_serialize :: "msal_cache \<Rightarrow> string"
  keytar_error :: "keytar_call \<Rightarrow> js_error option"
  JSON_stringify_accountId :: "string option \<Rightarrow> string"

text \<open>
  The fields of the \<^verbatim>\<open>AuthManager\<close> instance (lines 90-97, without \<^verbatim>\<open>config\<close>), then
  the state of its collaborators: the provider's cache, the vault (service and account
  name to password), the files (path to content) and the calls made so far.
\<close>

record world =
  scopes :: "string list"
  accessToken :: "string option"
  tokenExpiry :: "jsnum option"
  oauthToken :: "string option"
  isOAuthMode :: bool
  selectedAccountId :: "string option"
  msalApp :: msal_cache
  vault :: "string \<times> string \<Rightarrow> string option"
  files :: "string \<Rightarrow> string option"
  trace :: "call list"

definition SERVICE_NAME :: string where
  "SERVICE_NAME = ''ms-365-mcp-server''"

definition TOKEN_CACHE_ACCOUNT :: string where
  "TOKEN_CACHE_ACCOUNT = ''msal-token-cache''"

definition SELECTED_ACCOUNT_KEY :: string where
  "SELECTED_ACCOUNT_KEY = ''selected-account''"

text \<open>The two fallback files, relative to the module's directory (lines 30-32).\<close>

definition FALLBACK_PATH :: string where
  "FALLBACK_PATH = ''../.token-cache.json''"

definition SELECTED_ACCOUNT_PATH :: string where
  "SELECTED_ACCOUNT_PATH = ''../.selected-account.json''"

text \<open>JavaScript truthiness of \<^verbatim>\<open>string | null\<close> and of \<^verbatim>\<open>number | null\<close>.\<close>

definition truthy_string :: "string option \<Rightarrow> bool" where
  "truthy_string v = (case v of None \<Rightarrow> False | Some s \<Rightarrow> s \<noteq> [])"

definition truthy_number :: "jsnum option \<Rightarrow> bool" where
  "truthy_number v = (case v of Some (Num n) \<Rightarrow> n \<noteq> 0 | _ \<Rightarrow> False)"

text \<open>\<^verbatim>\<open>x > y\<close> for a number \<open>x\<close> and an integer \<open>y\<close>: false when \<open>x\<close> is \<^verbatim>\<open>NaN\<close>.\<close>

definition number_gt :: "jsnum option \<Rightarrow> int \<Rightarrow> bool" where
  "number_gt v y = (case v of Some (Num n) \<Rightarrow> n > y | _ \<Rightarrow> False)"

text \<open>\<^verbatim>\<open>s || null\<close> for a string \<open>s\<close>.\<close>

definition or_null :: "string \<Rightarrow> string option" where
  "or_null s = (if s = [] then None else Some s)"

definition record_call :: "call \<Rightarrow> world \<Rightarrow> world" where
  "record_call c w = w\<lparr>trace := trace w @ [c]\<rparr>"

text \<open>
  \<^verbatim>\<open>const x = await m; ...\<close> outside a \<^verbatim>\<open>try\<close>: an error of \<open>m\<close> leaves the function.
\<close>

definition await :: "(js_error + 'a) \<times> world \<Rightarrow> ('a \<Rightarrow> world \<Rightarrow> (js_error + 'b) \<times> world)
    \<Rightarrow> (js_error + 'b) \<times> world" where
  "await m f = (case m of (Inl e, w) \<Rightarrow> (Inl e, w) | (Inr x, w) \<Rightarrow> f x w)"

subsection \<open>The provider client\<close>

definition getAllAccounts :: "world \<Rightarrow> AccountInfo list \<times> world" where
  "getAllAccounts w = (accounts (msalApp w), record_call GetAllAccounts w)"

definition acquireTokenSilent :: "collaborators \<Rightarrow> AccountInfo \<Rightarrow> string list \<Rightarrow> world
    \<Rightarrow> (js_error + AuthenticationResult) \<times> world" where
  "acquireTokenSilent E a sc w =
    (case msal_acquireTokenSilent E a sc (msalApp w) of
       (r, m) \<Rightarrow> (r, record_call (AcquireTokenSilent a sc) (w\<lparr>msalApp := m\<rparr>)))"

definition msalApp_acquireTokenByDeviceCode :: "collaborators \<Rightarrow> string list \<Rightarrow> world
    \<Rightarrow> (js_error + AuthenticationResult option) \<times> world" where
  "msalApp_acquireTokenByDeviceCode E sc w =
    (case msal_acquireTokenByDeviceCode E sc (msalApp w) of
       (r, m) \<Rightarrow> (r, record_call (AcquireTokenByDeviceCode sc) (w\<lparr>msalApp := m\<rparr>)))"

text \<open>
  \<^verbatim>\<open>getTokenCache().removeAccount(account)\<close>: the account leaves the cache, unless the
  call throws.
\<close>

definition tokenCache_removeAccount :: "collaborators \<Rightarrow> AccountInfo \<Rightarrow> world
    \<Rightarrow> (js_error + unit) \<times> world" where
  "tokenCache_removeAccount E a w =
    (case msal_removeAccount_error E a (msalApp w) of
       Some e \<Rightarrow> (Inl e, record_call (RemoveAccount a) w)
     | None \<Rightarrow>
         (Inr (), record_call (RemoveAccount a)
            (w\<lparr>msalApp := (msalApp w)\<lparr>accounts := removeAll a (accounts (msalApp w))\<rparr>\<rparr>)))"

definition tokenCache_serialize :: "collaborators \<Rightarrow> world \<Rightarrow> string \<times> world" where
  "tokenCache_serialize E w = (msal_serialize E (msalApp w), record_call Serialize w)"

subsection \<open>The vault (\<^verbatim>\<open>keytar\<close>)\<close>

definition keytar_setPassword :: "collaborators \<Rightarrow> string \<Rightarrow> string \<Rightarrow> string \<Rightarrow> world
    \<Rightarrow> (js_error + unit) \<times> world" where
  "keytar_setPassword E service acct password w =
    (case keytar_error E (SetPassword service acct password) of
       Some e \<Rightarrow> (Inl e, record_call (Keytar (SetPassword service acct password)) w)
     | None \<Rightarrow>
         (Inr (), record_call (Keytar (SetPassword service acct password))
            (w\<lparr>vault := (vault w)((service, acct) \<mapsto> password)\<rparr>)))"

text \<open>\<^verbatim>\<open>deletePassword\<close> answers whether there was an entry; an absent entry is no error.\<close>

definition keytar_deletePassword :: "collaborators \<Rightarrow> string \<Rightarrow> string \<Rightarrow> world
    \<Rightarrow> (js_error + bool) \<times> world" where
  "keytar_deletePassword E service acct w =
    (case keytar_error E (DeletePassword service acct) of
       Some e \<Rightarrow> (Inl e, record_call (Keytar (DeletePassword service acct)) w)
     | None \<Rightarrow>
         (Inr (vault w (service, acct) \<noteq> None), record_call (Keytar (DeletePassword service acct))
            (w\<lparr>vault := (vault w)((service, acct) := None)\<rparr>)))"

subsection \<open>The file system\<close>

text \<open>
  The names the module \<^verbatim>\<open>auth.ts\<close> imports (lines 1-7). From \<^verbatim>\<open>'fs'\<close> it imports
  \<^verbatim>\<open>existsSync\<close> and \<^verbatim>\<open>readFileSync\<close> only, and no declaration of the module is named
  \<^verbatim>\<open>fs\<close>. The methods below nevertheless write \<^verbatim>\<open>fs.writeFileSync\<close>, \<^verbatim>\<open>fs.existsSync\<close>
  and \<^verbatim>\<open>fs.unlinkSync\<close> (lines 186, 204, 383-388): evaluating the identifier \<^verbatim>\<open>fs\<close>
  throws a \<^verbatim>\<open>ReferenceError\<close> before any file is touched.
\<close>

definition module_imports :: "string list" where
  "module_imports =
    [''AccountInfo'', ''Configuration'', ''PublicClientApplication'', ''keytar'', ''logger'',
     ''existsSync'', ''readFileSync'', ''fileURLToPath'', ''path'']"

definition fs_identifier :: "js_error + unit" where
  "fs_identifier =
    (if ''fs'' \<in> set module_imports then Inr () else Inl (ReferenceError ''fs is not defined''))"

definition fs_writeFileSync :: "string \<Rightarrow> string \<Rightarrow> world \<Rightarrow> (js_error + unit) \<times> world" where
  "fs_writeFileSync p d w =
    (case fs_identifier of
       Inl e \<Rightarrow> (Inl e, w)
     | Inr _ \<Rightarrow> (Inr (), w\<lparr>files := (files w)(p \<mapsto> d)\<rparr>))"

definition fs_existsSync :: "string \<Rightarrow> world \<Rightarrow> (js_error + bool) \<times> world" where
  "fs_existsSync p w =
    (case fs_identifier of
       Inl e \<Rightarrow> (Inl e, w)
     | Inr _ \<Rightarrow> (Inr (files w p \<noteq> None), w))"

definition fs_unlinkSync :: "string \<Rightarrow> world \<Rightarrow> (js_error + unit) \<times> world" where
  "fs_unlinkSync p w =
    (case fs_identifier of
       Inl e \<Rightarrow> (Inl e, w)
     | Inr _ \<Rightarrow>
         (if files w p = None then (Inl (Error ''ENOENT: no such file or directory''), w)
          else (Inr (), w\<lparr>files := (files w)(p := None)\<rparr>)))"

section \<open>\<^verbatim>\<open>class AuthManager\<close> (src/src/auth.ts, lines 89-554)\<close>

text \<open>
  The constructor (lines 99-114): \<open>oauthTokenFromEnv\<close> is the environment variable
  \<^verbatim>\<open>MS365_MCP_OAUTH_TOKEN\<close>; the provider client starts with an empty cache.
\<close>

definition AuthManager_new :: "string list \<Rightarrow> string option \<Rightarrow> (string \<times> string \<Rightarrow> string option)
    \<Rightarrow> (string \<Rightarrow> string option) \<Rightarrow> world" where
  "AuthManager_new scopes0 oauthTokenFromEnv vault0 files0 =
    \<lparr>scopes = scopes0, accessToken = None, tokenExpiry = None,
     oauthToken = oauthTokenFromEnv, isOAuthMode = (oauthTokenFromEnv \<noteq> None),
     selectedAccountId = None,
     msalApp = \<lparr>accounts = [], credentials = []\<rparr>,
     vault = vault0, files = files0, trace = []\<rparr>"

text \<open>
  \<^verbatim>\<open>saveTokenCache\<close> (lines 175-191). The inner \<^verbatim>\<open>catch\<close> takes the vault's error and
  writes the file; the outer \<^verbatim>\<open>catch\<close> takes every other error and logs it.
\<close>

definition saveTokenCache :: "collaborators \<Rightarrow> world \<Rightarrow> (js_error + unit) \<times> world" where
  "saveTokenCache E w =
    (case tokenCache_serialize E w of
       (cacheData, w1) \<Rightarrow>
         (case keytar_setPassword E SERVICE_NAME TOKEN_CACHE_ACCOUNT cacheData w1 of
            (Inr _, w2) \<Rightarrow> (Inr (), w2)
          | (Inl keytarError, w2) \<Rightarrow>
              (case fs_writeFileSync FALLBACK_PATH cacheData w2 of
                 (Inr _, w3) \<Rightarrow> (Inr (), w3)
               | (Inl error, w3) \<Rightarrow> (Inr (), w3))))"

text \<open>\<^verbatim>\<open>saveSelectedAccount\<close> (lines 193-209), of the same shape.\<close>

definition saveSelectedAccount :: "collaborators \<Rightarrow> world \<Rightarrow> (js_error + unit) \<times> world" where
  "saveSelectedAccount E w =
    (case JSON_stringify_accountId E (selectedAccountId w) of
       selectedAccountData \<Rightarrow>
         (case keytar_setPassword E SERVICE_NAME SELECTED_ACCOUNT_KEY selectedAccountData w of
            (Inr _, w2) \<Rightarrow> (Inr (), w2)
          | (Inl keytarError, w2) \<Rightarrow>
              (case fs_writeFileSync SELECTED_ACCOUNT_PATH selectedAccountData w2 of
                 (Inr _, w3) \<Rightarrow> (Inr (), w3)
               | (Inl error, w3) \<Rightarrow> (Inr (), w3))))"

text \<open>\<^verbatim>\<open>setOAuthToken\<close> (lines 211-214).\<close>

definition setOAuthToken :: "string \<Rightarrow> world \<Rightarrow> world" where
  "setOAuthToken token w = w\<lparr>oauthToken := Some token, isOAuthMode := True\<rparr>"

text \<open>\<^verbatim>\<open>getCurrentAccount\<close> (lines 247-269).\<close>

definition getCurrentAccount :: "world \<Rightarrow> AccountInfo option \<times> world" where
  "getCurrentAccount w =
    (case getAllAccounts w of
       (accs, w1) \<Rightarrow>
         (case accs of
            [] \<Rightarrow> (None, w1)
          | first # _ \<Rightarrow>
              (if truthy_string (selectedAccountId w1) then
                 (case find (\<lambda>account. Some (homeAccountId account) = selectedAccountId w1) accs of
                    Some selectedAccount \<Rightarrow> (Some selectedAccount, w1)
                  | None \<Rightarrow> (Some first, w1))
               else (Some first, w1))))"

text \<open>
  \<^verbatim>\<open>getToken\<close> (lines 216-245); \<open>now\<close> is \<^verbatim>\<open>Date.now()\<close>. The \<^verbatim>\<open>catch\<close> replaces
  the provider's error by its own.
\<close>

definition getToken :: "collaborators \<Rightarrow> bool \<Rightarrow> int \<Rightarrow> world \<Rightarrow> (js_error + string option) \<times> world" where
  "getToken E forceRefresh now w =
    (if isOAuthMode w \<and> truthy_string (oauthToken w) then (Inr (oauthToken w), w)
     else if truthy_string (accessToken w) \<and> truthy_number (tokenExpiry w)
             \<and> number_gt (tokenExpiry w) now \<and> \<not> forceRefresh
       then (Inr (accessToken w), w)
     else
       (case getCurrentAccount w of
          (Some currentAccount, w1) \<Rightarrow>
            (case acquireTokenSilent E currentAccount (scopes w1) w1 of
               (Inr response, w2) \<Rightarrow>
                 (Inr (Some (result_accessToken response)),
                  w2\<lparr>accessToken := Some (result_accessToken response),
                     tokenExpiry := (case expiresOn response of
                                       Some date \<Rightarrow> Some date | None \<Rightarrow> None)\<rparr>)
             | (Inl error, w2) \<Rightarrow> (Inl (Error ''Silent token acquisition failed''), w2))
        | (None, w1) \<Rightarrow> (Inl (Error ''No valid token found''), w1)))"

text \<open>
  The two assignments after a device-code answer (lines 291-292 and 452-453):
  \<^verbatim>\<open>response?.accessToken || null\<close> and the expiry.
\<close>

definition cache_response :: "AuthenticationResult option \<Rightarrow> world \<Rightarrow> world" where
  "cache_response response w =
    w\<lparr>accessToken := (case response of None \<Rightarrow> None | Some r \<Rightarrow> or_null (result_accessToken r)),
      tokenExpiry := (case response of
                        None \<Rightarrow> None
                      | Some r \<Rightarrow> (case expiresOn r of Some date \<Rightarrow> Some date | None \<Rightarrow> None))\<rparr>"

text \<open>\<^verbatim>\<open>response?.account\<close>.\<close>

definition response_account :: "AuthenticationResult option \<Rightarrow> AccountInfo option" where
  "response_account response = (case response of None \<Rightarrow> None | Some r \<Rightarrow> result_account r)"

text \<open>
  \<^verbatim>\<open>acquireTokenByDeviceCode\<close> (lines 271-307). The callback only shows the provider's
  message; the \<^verbatim>\<open>catch\<close> logs and rethrows.
\<close>

definition acquireTokenByDeviceCode :: "collaborators \<Rightarrow> world \<Rightarrow> (js_error + string option) \<times> world" where
  "acquireTokenByDeviceCode E w =
    await (msalApp_acquireTokenByDeviceCode E (scopes w) w) (\<lambda>response w1.
      await (case response_account response of
               Some account \<Rightarrow>
                 (if \<not> truthy_string (selectedAccountId (cache_response response w1)) then
                    saveSelectedAccount E
                      ((cache_response response w1)\<lparr>selectedAccountId := Some (homeAccountId account)\<rparr>)
                  else (Inr (), cache_response response w1))
             | None \<Rightarrow> (Inr (), cache_response response w1)) (\<lambda>_ w2.
        await (saveTokenCache E w2) (\<lambda>_ w3. (Inr (accessToken w3), w3))))"

text \<open>
  \<^verbatim>\<open>logout\<close> (lines 366-396). The loop removes the accounts listed before it; the
  \<^verbatim>\<open>catch\<close> around the vault only logs; the outer \<^verbatim>\<open>catch\<close> logs and rethrows.
\<close>

fun removeAccounts :: "collaborators \<Rightarrow> AccountInfo list \<Rightarrow> world \<Rightarrow> (js_error + unit) \<times> world" where
  "removeAccounts E [] w = (Inr (), w)"
| "removeAccounts E (account # rest) w =
     (case tokenCache_removeAccount E account w of
        (Inl e, w1) \<Rightarrow> (Inl e, w1)
      | (Inr _, w1) \<Rightarrow> removeAccounts E rest w1)"

definition delete_vault_entries :: "collaborators \<Rightarrow> world \<Rightarrow> world" where
  "delete_vault_entries E w =
    (case keytar_deletePassword E SERVICE_NAME TOKEN_CACHE_ACCOUNT w of
       (Inl keytarError, w1) \<Rightarrow> w1
     | (Inr _, w1) \<Rightarrow>
         (case keytar_deletePassword E SERVICE_NAME SELECTED_ACCOUNT_KEY w1 of
            (Inl keytarError, w2) \<Rightarrow> w2
          | (Inr _, w2) \<Rightarrow> w2))"

definition unlink_if_exists :: "string \<Rightarrow> world \<Rightarrow> (js_error + unit) \<times> world" where
  "unlink_if_exists p w =
    await (fs_existsSync p w) (\<lambda>exists w1. if exists then fs_unlinkSync p w1 else (Inr (), w1))"

definition logout :: "collaborators \<Rightarrow> world \<Rightarrow> (js_error + bool) \<times> world" where
  "logout E w =
    (case getAllAccounts w of
       (accs, w0) \<Rightarrow>
         await (removeAccounts E accs w0) (\<lambda>_ w1.
           await (unlink_if_exists FALLBACK_PATH
                    (delete_vault_entries E
                       (w1\<lparr>accessToken := None, tokenExpiry := None, selectedAccountId := None\<rparr>)))
             (\<lambda>_ w2.
               await (unlink_if_exists SELECTED_ACCOUNT_PATH w2) (\<lambda>_ w3. (Inr True, w3)))))"

text \<open>
  \<^verbatim>\<open>expandToWorkAccountScopes\<close> (lines 424-469): the \<^verbatim>\<open>catch\<close> turns every error into
  the result \<^verbatim>\<open>false\<close>.
\<close>

definition expandToWorkAccountScopes :: "collaborators \<Rightarrow> world \<Rightarrow> (js_error + bool) \<times> world" where
  "expandToWorkAccountScopes E w =
    (case
       await (msalApp_acquireTokenByDeviceCode E (buildAllScopes (endpoints_default E)) w)
         (\<lambda>response w1.
           await (case response_account response of
                    Some account \<Rightarrow>
                      saveSelectedAccount E
                        ((cache_response response w1)
                           \<lparr>scopes := buildAllScopes (endpoints_default E),
                            selectedAccountId := Some (homeAccountId account)\<rparr>)
                  | None \<Rightarrow>
                      (Inr (), (cache_response response w1)
                                 \<lparr>scopes := buildAllScopes (endpoints_default E)\<rparr>))
             (\<lambda>_ w2. await (saveTokenCache E w2) (\<lambda>_ w3. (Inr True, w3))))
     of
       (Inl error, w') \<Rightarrow> (Inr False, w')
     | (Inr r, w') \<Rightarrow> (Inr r, w'))"

text \<open>\<^verbatim>\<open>listAccounts\<close> (lines 472-474).\<close>

definition listAccounts :: "world \<Rightarrow> AccountInfo list \<times> world" where
  "listAccounts w = getAllAccounts w"

text \<open>\<^verbatim>\<open>selectAccount\<close> (lines 476-494).\<close>

definition selectAccount :: "collaborators \<Rightarrow> string \<Rightarrow> world \<Rightarrow> (js_error + bool) \<times> world" where
  "selectAccount E accountId w =
    (case listAccounts w of
       (accs, w1) \<Rightarrow>
         (case find (\<lambda>acc. homeAccountId acc = accountId) accs of
            None \<Rightarrow> (Inr False, w1)
          | Some account \<Rightarrow>
              await (saveSelectedAccount E (w1\<lparr>selectedAccountId := Some accountId\<rparr>)) (\<lambda>_ w2.
                (Inr True, w2\<lparr>accessToken := None, tokenExpiry := None\<rparr>))))"

text \<open>\<^verbatim>\<open>getTokenForAccount\<close> (lines 496-516): the \<^verbatim>\<open>catch\<close> logs and rethrows.\<close>

definition getTokenForAccount :: "collaborators \<Rightarrow> string \<Rightarrow> world \<Rightarrow> (js_error + string option) \<times> world" where
  "getTokenForAccount E accountId w =
    (case listAccounts w of
       (accs, w1) \<Rightarrow>
         (case find (\<lambda>acc. homeAccountId acc = accountId) accs of
            None \<Rightarrow> (Inl (Error (''Account with ID '' @ accountId @ '' not found'')), w1)
          | Some account \<Rightarrow>
              (case acquireTokenSilent E account (scopes w1) w1 of
                 (Inr response, w2) \<Rightarrow> (Inr (Some (result_accessToken response)), w2)
               | (Inl error, w2) \<Rightarrow> (Inl error, w2))))"

text \<open>\<^verbatim>\<open>removeAccount\<close> (lines 518-544): the \<^verbatim>\<open>catch\<close> answers \<^verbatim>\<open>false\<close>.\<close>

definition removeAccount :: "collaborators \<Rightarrow> string \<Rightarrow> world \<Rightarrow> (js_error + bool) \<times> world" where
  "removeAccount E accountId w =
    (case listAccounts w of
       (accs, w1) \<Rightarrow>
         (case find (\<lambda>acc. homeAccountId acc = accountId) accs of
            None \<Rightarrow> (Inr False, w1)
          | Some account \<Rightarrow>
              (case
                 await (tokenCache_removeAccount E account w1) (\<lambda>_ w2.
                   if selectedAccountId w2 = Some accountId then
                     await (saveSelectedAccount E (w2\<lparr>selectedAccountId := None\<rparr>)) (\<lambda>_ w3.
                       (Inr True, w3\<lparr>accessToken := None, tokenExpiry := None\<rparr>))
                   else (Inr True, w2))
               of
                 (Inl error, w') \<Rightarrow> (Inr False, w')
               | (Inr r, w') \<Rightarrow> (Inr r, w'))))"

text \<open>\<^verbatim>\<open>getSelectedAccountId\<close> (lines 546-548).\<close>

definition getSelectedAccountId :: "world \<Rightarrow> string option" where
  "getSelectedAccountId w = selectedAccountId w"

section \<open>Predicates of the specification\<close>

text \<open>
  A scope appears on a catalog entry; it appears only on entries flagged as requiring the
  work account when it appears on one and every entry it appears on is flagged.
\<close>

definition appears_on :: "string \<Rightarrow> EndpointConfig \<Rightarrow> bool" where
  "appears_on s e = (case endpoint_scopes e of None \<Rightarrow> False | Some ss \<Rightarrow> s \<in> set ss)"

definition only_on_work_account_entries :: "EndpointConfig list \<Rightarrow> string \<Rightarrow> bool" where
  "only_on_work_account_entries endpoints s =
    (list_ex (appears_on s) endpoints \<and>
     list_all (\<lambda>e. \<not> appears_on s e \<or> requiresWorkAccount e = Some True) endpoints)"

text \<open>
  The scope is a higher scope of \<open>SCOPE_HIERARCHY\<close> whose lower scopes all appear on
  entries that \<^verbatim>\<open>buildScopesFromEndpoints(false)\<close> keeps.
\<close>

definition implied_by_kept_scopes :: "EndpointConfig list \<Rightarrow> string \<Rightarrow> bool" where
  "implied_by_kept_scopes endpoints s =
    list_ex (\<lambda>entry. fst entry = s \<and>
               list_all (\<lambda>l. set_has l (foldl (endpoint_step False) [] endpoints)) (snd entry))
      SCOPE_HIERARCHY"

text \<open>The vault calls among the calls made.\<close>

definition is_vault_call :: "call \<Rightarrow> bool" where
  "is_vault_call c = (case c of Keytar _ \<Rightarrow> True | _ \<Rightarrow> False)"

section \<open>Example inputs\<close>

definition alice :: AccountInfo where
  "alice = \<lparr>homeAccountId = ''alice-id'', username = ''alice@example.org''\<rparr>"

definition bob :: AccountInfo where
  "bob = \<lparr>homeAccountId = ''bob-id'', username = ''bob@example.org''\<rparr>"

definition token_for :: "AccountInfo \<Rightarrow> AuthenticationResult" where
  "token_for a =
    \<lparr>result_accessToken = ''token-of-'' @ homeAccountId a,
     expiresOn = Some (Num 3600000),
     result_account = Some a\<rparr>"

text \<open>A catalog of two entries; the second is flagged as requiring the work account.\<close>

definition mail_catalog :: "EndpointConfig list" where
  "mail_catalog =
    [\<lparr>pathPattern = ''/me/messages'', http_method = ''get'', toolName = ''list-mail-messages'',
      endpoint_scopes = Some [''Mail.Read''], requiresWorkAccount = None\<rparr>,
     \<lparr>pathPattern = ''/users/{user-id}/messages'', http_method = ''post'',
      toolName = ''create-shared-draft'',
      endpoint_scopes = Some [''Mail.ReadWrite''], requiresWorkAccount = Some True\<rparr>]"

text \<open>A catalog whose flagged entry needs a scope outside \<open>SCOPE_HIERARCHY\<close>.\<close>

definition teams_catalog :: "EndpointConfig list" where
  "teams_catalog =
    [\<lparr>pathPattern = ''/me/messages'', http_method = ''get'', toolName = ''list-mail-messages'',
      endpoint_scopes = Some [''Mail.Read''], requiresWorkAccount = None\<rparr>,
     \<lparr>pathPattern = ''/me/chats'', http_method = ''get'', toolName = ''list-chats'',
      endpoint_scopes = Some [''Chat.Read''], requiresWorkAccount = Some True\<rparr>]"

text \<open>
  A provider that answers every request: the device-code flow signs in \<open>alice\<close> when she
  is not in the cache and \<open>bob\<close> otherwise; the vault accepts every call.
\<close>

definition online :: collaborators where
  "online =
    \<lparr>endpoints_default = mail_catalog,
     msal_acquireTokenSilent = (\<lambda>a sc m. (Inr (token_for a), m)),
     msal_acquireTokenByDeviceCode =
       (\<lambda>sc m. if alice \<in> set (accounts m)
                then (Inr (Some (token_for bob)),
                      m\<lparr>accounts := accounts m @ [bob], credentials := credentials m @ ''+bob''\<rparr>)
                else (Inr (Some (token_for alice)),
                      m\<lparr>accounts := accounts m @ [alice], credentials := credentials m @ ''+alice''\<rparr>)),
     msal_removeAccount_error = (\<lambda>a m. None),
     msal_serialize = credentials,
     keytar_error = (\<lambda>c. None),
     JSON_stringify_accountId = (\<lambda>v. case v of None \<Rightarrow> ''accountId:null'' | Some s \<Rightarrow> ''accountId:'' @ s)\<rparr>"

text \<open>The same with a provider that rejects every request.\<close>

definition offline :: collaborators where
  "offline =
    online\<lparr>msal_acquireTokenSilent := (\<lambda>a sc m. (Inl (Error ''network unreachable''), m)),
           msal_acquireTokenByDeviceCode := (\<lambda>sc m. (Inl (Error ''device code expired''), m))\<rparr>"

text \<open>The same as \<open>online\<close> with a vault that rejects every call.\<close>

definition vault_locked :: collaborators where
  "vault_locked = online\<lparr>keytar_error := (\<lambda>c. Some (Error ''keychain is locked''))\<rparr>"

text \<open>
  A new manager, with no token in the environment, an empty vault and no file; the same
  with an old fallback file of the token cache; and the manager after \<open>alice\<close> signed in
  by the device-code flow.
\<close>

definition fresh :: world where
  "fresh = AuthManager_new [''Mail.ReadWrite''] None Map.empty Map.empty"

definition fresh_with_file :: world where
  "fresh_with_file =
    AuthManager_new [''Mail.ReadWrite''] None Map.empty (Map.empty(FALLBACK_PATH \<mapsto> ''old cache''))"

definition alice_signed_in :: world where
  "alice_signed_in =
    \<lparr>scopes = [''Mail.ReadWrite''], accessToken = Some ''token-of-alice-id'',
     tokenExpiry = Some (Num 3600000), oauthToken = None, isOAuthMode = False,
     selectedAccountId = Some ''alice-id'',
     msalApp = \<lparr>accounts = [alice], credentials = ''+alice''\<rparr>,
     vault = Map.empty((SERVICE_NAME, SELECTED_ACCOUNT_KEY) \<mapsto> ''accountId:alice-id'',
                       (SERVICE_NAME, TOKEN_CACHE_ACCOUNT) \<mapsto> ''+alice''),
     files = Map.empty,
     trace = [AcquireTokenByDeviceCode [''Mail.ReadWrite''],
              Keytar (SetPassword SERVICE_NAME SELECTED_ACCOUNT_KEY ''accountId:alice-id''),
              Serialize,
              Keytar (SetPassword SERVICE_NAME TOKEN_CACHE_ACCOUNT ''+alice'')]\<rparr>"

text \<open>The manager after \<open>bob\<close> signed in as well: \<open>alice\<close> stays selected.\<close>

definition both_signed_in :: world where
  "both_signed_in =
    \<lparr>scopes = [''Mail.ReadWrite''], accessToken = Some ''token-of-bob-id'',
     tokenExpiry = Some (Num 3600000), oauthToken = None, isOAuthMode = False,
     selectedAccountId = Some ''alice-id'',
     msalApp = \<lparr>accounts = [alice, bob], credentials = ''+alice+bob''\<rparr>,
     vault = Map.empty((SERVICE_NAME, SELECTED_ACCOUNT_KEY) \<mapsto> ''accountId:alice-id'',
                       (SERVICE_NAME, TOKEN_CACHE_ACCOUNT) \<mapsto> ''+alice+bob''),
     files = Map.empty,
     trace = trace alice_signed_in @
             [AcquireTokenByDeviceCode [''Mail.ReadWrite''],
              Serialize,
              Keytar (SetPassword SERVICE_NAME TOKEN_CACHE_ACCOUNT ''+alice+bob'')]\<rparr>"

section \<open>Scope resolution\<close>

lemma set_set_add: "set (set_add x s) = insert x (set s)"
  by (auto simp: set_add_def)

lemma set_set_delete: "set (set_delete x s) = set s - {x}"
  by (simp add: set_delete_def)

lemma set_foldl_add: "set (foldl (\<lambda>s scope. set_add scope s) s ss) = set s \<union> set ss"
  by (induction ss arbitrary: s) (auto simp: set_set_add)

lemma set_foldl_delete: "set (foldl (\<lambda>s scope. set_delete scope s) s ss) = set s - set ss"
  by (induction ss arbitrary: s) (auto simp: set_set_delete)

lemma set_hierarchy_step:
  "set (hierarchy_step s (h, ls)) = (if set ls \<subseteq> set s then insert h (set s - set ls) else set s)"
  by (auto simp: hierarchy_step_def set_has_def list_all_iff set_set_add set_foldl_delete)

lemma set_endpoint_step:
  "set (endpoint_step inc s e) =
     set s \<union> (if requiresWorkAccount e = Some True \<and> \<not> inc then {}
               else (case endpoint_scopes e of None \<Rightarrow> {} | Some ss \<Rightarrow> set ss))"
  by (auto simp: endpoint_step_def set_foldl_add split: option.splits)

text \<open>A scope kept by the first loop of \<^verbatim>\<open>buildScopesFromEndpoints(false)\<close> appears on an unflagged entry.\<close>

lemma kept_scope_origin:
  "x \<in> set (foldl (endpoint_step False) s es) \<Longrightarrow>
     x \<in> set s \<or> (\<exists>e \<in> set es. appears_on x e \<and> requiresWorkAccount e \<noteq> Some True)"
proof (induction es arbitrary: s)
  case Nil then show ?case by simp
next
  case (Cons e es)
  from Cons.IH [OF Cons.prems [simplified]] show ?case
    by (auto simp: set_endpoint_step appears_on_def split: if_splits option.splits)
qed

text \<open>The second loop adds higher scopes only: a scope that is none stays out.\<close>

lemma collapse_absent_stays:
  "l \<notin> fst ` set hier \<Longrightarrow> l \<notin> set s \<Longrightarrow> l \<notin> set (foldl hierarchy_step s hier)"
proof (induction hier arbitrary: s)
  case Nil then show ?case by simp
next
  case (Cons e hier)
  obtain h ls where e: "e = (h, ls)" by (cases e)
  from Cons.prems have "l \<noteq> h" by (auto simp: e)
  with Cons.prems have "l \<notin> set (hierarchy_step s e)"
    by (auto simp: e set_hierarchy_step split: if_splits)
  with Cons show ?case by simp
qed

lemma step_leaves_gap:
  "ls \<noteq> [] \<Longrightarrow> h \<notin> set ls \<Longrightarrow> \<exists>l \<in> set ls. l \<notin> set (hierarchy_step s (h, ls))"
  by (cases ls) (auto simp: set_hierarchy_step)

lemma collapse_no_full_group:
  assumes "(h, ls) \<in> set hier" and "\<forall>(h', ls') \<in> set hier. ls' \<noteq> []"
    and "set (concat (map snd hier)) \<inter> fst ` set hier = {}"
  shows "\<not> set ls \<subseteq> set (foldl hierarchy_step s hier)"
  using assms
proof (induction hier arbitrary: s)
  case Nil then show ?case by simp
next
  case (Cons e hier)
  show ?case
  proof (cases "e = (h, ls)")
    case True
    from Cons.prems have "ls \<noteq> []" "h \<notin> set ls" by (auto simp: True)
    then obtain l where l: "l \<in> set ls" "l \<notin> set (hierarchy_step s (h, ls))"
      using step_leaves_gap by blast
    from l(1) Cons.prems(3) have "l \<notin> fst ` set hier" by (auto simp: True)
    then have "l \<notin> set (foldl hierarchy_step (hierarchy_step s (h, ls)) hier)"
      using l(2) by (rule collapse_absent_stays)
    with l(1) show ?thesis by (auto simp: True)
  next
    case False
    with Cons.prems have "(h, ls) \<in> set hier" by simp
    moreover from Cons.prems have "\<forall>(h', ls') \<in> set hier. ls' \<noteq> []" by simp
    moreover from Cons.prems(3) have "set (concat (map snd hier)) \<inter> fst ` set hier = {}" by auto
    ultimately have "\<not> set ls \<subseteq> set (foldl hierarchy_step (hierarchy_step s e) hier)"
      by (rule Cons.IH)
    then show ?thesis by simp
  qed
qed

text \<open>A scope that the second loop brought in is a higher scope whose lower scopes were there.\<close>

lemma collapse_origin:
  "x \<in> set (foldl hierarchy_step s hier) \<Longrightarrow> x \<notin> set s \<Longrightarrow>
     \<exists>(h, ls) \<in> set hier. h = x \<and> (\<forall>l \<in> set ls. l \<in> set s \<or> l \<in> fst ` set hier)"
proof (induction hier arbitrary: s)
  case Nil then show ?case by simp
next
  case (Cons e hier)
  obtain h ls where e: "e = (h, ls)" by (cases e)
  show ?case
  proof (cases "x \<in> set (hierarchy_step s e)")
    case True
    with Cons.prems(2) have "x = h" "set ls \<subseteq> set s"
      by (auto simp: e set_hierarchy_step split: if_splits)
    then show ?thesis by (auto simp: e)
  next
    case False
    with Cons.prems(1) Cons.IH[of "hierarchy_step s e"]
    obtain h' ls' where *: "(h', ls') \<in> set hier" "h' = x"
      "\<forall>l \<in> set ls'. l \<in> set (hierarchy_step s e) \<or> l \<in> fst ` set hier"
      by auto
    have "\<forall>l \<in> set ls'. l \<in> set s \<or> l \<in> fst ` set (e # hier)"
    proof
      fix l assume "l \<in> set ls'"
      with *(3) have "l \<in> set (hierarchy_step s e) \<or> l \<in> fst ` set hier" by blast
      then show "l \<in> set s \<or> l \<in> fst ` set (e # hier)"
        by (auto simp: e set_hierarchy_step split: if_splits)
    qed
    with *(1,2) show ?thesis by auto
  qed
qed

lemma SCOPE_HIERARCHY_lower_nonempty: "\<forall>(h', ls') \<in> set SCOPE_HIERARCHY. ls' \<noteq> []"
  by (simp add: SCOPE_HIERARCHY_def)

lemma SCOPE_HIERARCHY_levels_disjoint:
  "set (concat (map snd SCOPE_HIERARCHY)) \<inter> fst ` set SCOPE_HIERARCHY = {}"
  by (simp add: SCOPE_HIERARCHY_def)

lemma mail_catalog_scopes:
  "buildScopesFromEndpoints mail_catalog False = [''Mail.ReadWrite'']"
  "buildScopesFromEndpoints mail_catalog True = [''Mail.ReadWrite'']"
  by (simp_all add: buildScopesFromEndpoints_def mail_catalog_def endpoint_step_def
      hierarchy_step_def SCOPE_HIERARCHY_def set_add_def set_delete_def set_has_def)

text \<open>
  C3. For every catalog and either value of the flag, the list that
  \<^verbatim>\<open>buildScopesFromEndpoints\<close> returns never holds a higher scope of \<open>SCOPE_HIERARCHY\<close>
  together with all the lower scopes of that entry.
\<close>

theorem buildScopes_never_keeps_full_group:
  "(higherScope, lowerScopes) \<in> set SCOPE_HIERARCHY \<Longrightarrow>
     \<not> (higherScope \<in> set (buildScopesFromEndpoints endpoints includeWorkAccountScopes) \<and>
        set lowerScopes \<subseteq> set (buildScopesFromEndpoints endpoints includeWorkAccountScopes))"
  unfolding buildScopesFromEndpoints_def
  using collapse_no_full_group [OF _ SCOPE_HIERARCHY_lower_nonempty SCOPE_HIERARCHY_levels_disjoint]
  by blast

text \<open>On \<open>mail_catalog\<close> with the flag set: the higher scope is there, its lower scope is not.\<close>

theorem buildScopes_never_keeps_full_group_witness:
  "(''Mail.ReadWrite'', [''Mail.Read'']) \<in> set SCOPE_HIERARCHY \<and>
   ''Mail.ReadWrite'' \<in> set (buildScopesFromEndpoints mail_catalog True) \<and>
   \<not> set [''Mail.Read''] \<subseteq> set (buildScopesFromEndpoints mail_catalog True)"
proof -
  have h: "(''Mail.ReadWrite'', [''Mail.Read'']) \<in> set SCOPE_HIERARCHY"
    by (simp add: SCOPE_HIERARCHY_def)
  have m: "''Mail.ReadWrite'' \<in> set (buildScopesFromEndpoints mail_catalog True)"
    by (simp add: mail_catalog_scopes)
  from h m buildScopes_never_keeps_full_group [OF h, of mail_catalog True] show ?thesis by blast
qed

text \<open>
  C4 as stated fails: in \<open>mail_catalog\<close> the scope \<^verbatim>\<open>Mail.ReadWrite\<close> appears only on the
  flagged entry, and \<^verbatim>\<open>buildScopesFromEndpoints(false)\<close> returns it all the same, because
  the unflagged entry brings \<^verbatim>\<open>Mail.Read\<close> and the second loop replaces it.
\<close>

theorem buildScopes_false_returns_implied_scope:
  "only_on_work_account_entries mail_catalog ''Mail.ReadWrite'' \<and>
   ''Mail.ReadWrite'' \<in> set (buildScopesFromEndpoints mail_catalog False)"
  by (simp add: mail_catalog_scopes)
     (simp add: only_on_work_account_entries_def appears_on_def mail_catalog_def)

text \<open>
  C4, amended. For every catalog, \<^verbatim>\<open>buildScopesFromEndpoints(false)\<close> excludes every scope
  that appears only on entries flagged as requiring the work account, unless the scope is a
  higher scope of \<open>SCOPE_HIERARCHY\<close> whose lower scopes all appear on entries that are kept.
\<close>

theorem buildScopes_false_excludes_work_only_scopes:
  assumes only: "only_on_work_account_entries endpoints s"
    and not_implied: "\<not> implied_by_kept_scopes endpoints s"
  shows "s \<notin> set (buildScopesFromEndpoints endpoints False)"
proof
  assume inside: "s \<in> set (buildScopesFromEndpoints endpoints False)"
  have not_kept: "s \<notin> set (foldl (endpoint_step False) [] endpoints)"
  proof
    assume "s \<in> set (foldl (endpoint_step False) [] endpoints)"
    from kept_scope_origin [OF this]
    obtain e where "e \<in> set endpoints" "appears_on s e" "requiresWorkAccount e \<noteq> Some True"
      by auto
    with only show False
      by (auto simp: only_on_work_account_entries_def list_all_iff)
  qed
  from collapse_origin [OF inside [unfolded buildScopesFromEndpoints_def] not_kept]
  obtain h ls where hl: "(h, ls) \<in> set SCOPE_HIERARCHY" "h = s"
    "\<forall>l \<in> set ls. l \<in> set (foldl (endpoint_step False) [] endpoints) \<or> l \<in> fst ` set SCOPE_HIERARCHY"
    by auto
  have "\<forall>l \<in> set ls. l \<in> set (foldl (endpoint_step False) [] endpoints)"
  proof
    fix l assume l: "l \<in> set ls"
    with hl(1) have "l \<in> set (concat (map snd SCOPE_HIERARCHY))" by force
    with SCOPE_HIERARCHY_levels_disjoint have "l \<notin> fst ` set SCOPE_HIERARCHY" by blast
    with hl(3) l show "l \<in> set (foldl (endpoint_step False) [] endpoints)" by blast
  qed
  with hl(1,2) have "implied_by_kept_scopes endpoints s"
    unfolding implied_by_kept_scopes_def list_ex_iff list_all_iff set_has_def
    by (intro bexI [of _ "(h, ls)"]) auto
  with not_implied show False by contradiction
qed

text \<open>On \<open>teams_catalog\<close>: \<^verbatim>\<open>Chat.Read\<close> is left out without the flag and returned with it.\<close>

theorem buildScopes_false_excludes_work_only_scopes_witness:
  "only_on_work_account_entries teams_catalog ''Chat.Read'' \<and>
   \<not> implied_by_kept_scopes teams_catalog ''Chat.Read'' \<and>
   ''Chat.Read'' \<notin> set (buildScopesFromEndpoints teams_catalog False) \<and>
   ''Chat.Read'' \<in> set (buildScopesFromEndpoints teams_catalog True)"
proof -
  have o: "only_on_work_account_entries teams_catalog ''Chat.Read''"
    by (simp add: only_on_work_account_entries_def appears_on_def teams_catalog_def)
  have n: "\<not> implied_by_kept_scopes teams_catalog ''Chat.Read''"
    by (simp add: implied_by_kept_scopes_def SCOPE_HIERARCHY_def)
  have t: "''Chat.Read'' \<in> set (buildScopesFromEndpoints teams_catalog True)"
    by (simp add: buildScopesFromEndpoints_def teams_catalog_def endpoint_step_def
      hierarchy_step_def SCOPE_HIERARCHY_def set_add_def set_delete_def set_has_def)
  from o n t buildScopes_false_excludes_work_only_scopes [OF o n] show ?thesis by simp
qed

section \<open>Saving: the vault and the fallback file\<close>

lemmas collaborator_defs =
  record_call_def await_def getAllAccounts_def acquireTokenSilent_def
  msalApp_acquireTokenByDeviceCode_def tokenCache_removeAccount_def tokenCache_serialize_def
  keytar_setPassword_def keytar_deletePassword_def

lemmas example_defs =
  alice_def bob_def token_for_def online_def offline_def vault_locked_def fresh_def
  fresh_with_file_def AuthManager_new_def SERVICE_NAME_def TOKEN_CACHE_ACCOUNT_def
  SELECTED_ACCOUNT_KEY_def FALLBACK_PATH_def SELECTED_ACCOUNT_PATH_def
  alice_signed_in_def both_signed_in_def

text \<open>The module does not bind \<^verbatim>\<open>fs\<close>: every use of it throws.\<close>

lemma fs_identifier_unbound: "fs_identifier = Inl (ReferenceError ''fs is not defined'')"
  by (simp add: fs_identifier_def module_imports_def)

lemma fs_writeFileSync_throws:
  "fs_writeFileSync p d w = (Inl (ReferenceError ''fs is not defined''), w)"
  by (simp add: fs_writeFileSync_def fs_identifier_unbound)

lemma fs_existsSync_throws: "fs_existsSync p w = (Inl (ReferenceError ''fs is not defined''), w)"
  by (simp add: fs_existsSync_def fs_identifier_unbound)

text \<open>
  What the two save methods do: one call to the vault, which stores the data unless it
  throws; the error of the file write is taken by the outer \<^verbatim>\<open>catch\<close>.
\<close>

lemma saveTokenCache_eq:
  "saveTokenCache E w =
     (Inr (), record_call (Keytar (SetPassword SERVICE_NAME TOKEN_CACHE_ACCOUNT (msal_serialize E (msalApp w))))
        (case keytar_error E (SetPassword SERVICE_NAME TOKEN_CACHE_ACCOUNT (msal_serialize E (msalApp w))) of
           Some e \<Rightarrow> record_call Serialize w
         | None \<Rightarrow> (record_call Serialize w)
             \<lparr>vault := (vault w)((SERVICE_NAME, TOKEN_CACHE_ACCOUNT) \<mapsto> msal_serialize E (msalApp w))\<rparr>))"
  by (simp add: saveTokenCache_def tokenCache_serialize_def keytar_setPassword_def
      fs_writeFileSync_throws record_call_def split: option.splits)

lemma saveSelectedAccount_eq:
  "saveSelectedAccount E w =
     (Inr (), record_call (Keytar (SetPassword SERVICE_NAME SELECTED_ACCOUNT_KEY
                 (JSON_stringify_accountId E (selectedAccountId w))))
        (case keytar_error E (SetPassword SERVICE_NAME SELECTED_ACCOUNT_KEY
                 (JSON_stringify_accountId E (selectedAccountId w))) of
           Some e \<Rightarrow> w
         | None \<Rightarrow> w\<lparr>vault := (vault w)((SERVICE_NAME, SELECTED_ACCOUNT_KEY) \<mapsto>
                         JSON_stringify_accountId E (selectedAccountId w))\<rparr>))"
  by (simp add: saveSelectedAccount_def keytar_setPassword_def
      fs_writeFileSync_throws record_call_def split: option.splits)

text \<open>No error leaves a save, whatever the vault does.\<close>

lemma save_never_throws:
  "fst (saveTokenCache E w) = Inr () \<and> fst (saveSelectedAccount E w) = Inr ()"
  by (simp add: saveTokenCache_eq saveSelectedAccount_eq)

text \<open>No save writes a file, whatever the vault does.\<close>

lemma save_leaves_files:
  "files (snd (saveTokenCache E w)) = files w \<and> files (snd (saveSelectedAccount E w)) = files w"
  by (simp add: saveTokenCache_eq saveSelectedAccount_eq record_call_def split: option.splits)

text \<open>
  C7, at a failing input: the vault rejects both writes. Each save returns without an error,
  its only call is the rejected write to the vault, and neither fallback file exists
  afterwards: the data offered to the vault is written nowhere.
\<close>

theorem save_with_locked_vault_writes_no_file:
  "keytar_error vault_locked (SetPassword SERVICE_NAME TOKEN_CACHE_ACCOUNT ''+alice'') =
     Some (Error ''keychain is locked'') \<and>
   saveTokenCache vault_locked alice_signed_in =
     (Inr (), alice_signed_in\<lparr>trace := trace alice_signed_in @
        [Serialize, Keytar (SetPassword SERVICE_NAME TOKEN_CACHE_ACCOUNT ''+alice'')]\<rparr>) \<and>
   files (snd (saveTokenCache vault_locked alice_signed_in)) FALLBACK_PATH = None \<and>
   keytar_error vault_locked (SetPassword SERVICE_NAME SELECTED_ACCOUNT_KEY ''accountId:alice-id'') =
     Some (Error ''keychain is locked'') \<and>
   saveSelectedAccount vault_locked alice_signed_in =
     (Inr (), alice_signed_in\<lparr>trace := trace alice_signed_in @
        [Keytar (SetPassword SERVICE_NAME SELECTED_ACCOUNT_KEY ''accountId:alice-id'')]\<rparr>) \<and>
   files (snd (saveSelectedAccount vault_locked alice_signed_in)) SELECTED_ACCOUNT_PATH = None"
  by (simp add: saveTokenCache_eq saveSelectedAccount_eq record_call_def vault_locked_def
      online_def alice_signed_in_def)

section \<open>Signing in: the example states are reached from a new manager\<close>

lemmas device_code_defs =
  acquireTokenByDeviceCode_def saveTokenCache_eq saveSelectedAccount_eq
  msalApp_acquireTokenByDeviceCode_def await_def record_call_def cache_response_def
  response_account_def or_null_def truthy_string_def

lemma first_login:
  "acquireTokenByDeviceCode online fresh = (Inr (Some ''token-of-alice-id''), alice_signed_in)"
  by (simp add: device_code_defs example_defs)

lemma second_login:
  "acquireTokenByDeviceCode online alice_signed_in = (Inr (Some ''token-of-bob-id''), both_signed_in)"
  by (simp add: device_code_defs example_defs)

section \<open>\<^verbatim>\<open>getToken\<close>\<close>

text \<open>
  C1. When \<^verbatim>\<open>getToken\<close> passes its first two tests (no injected token to return, and no
  cached token that is unexpired while \<open>forceRefresh\<close> is false): with no current account it
  throws \<^verbatim>\<open>No valid token found\<close> after listing the accounts; with a current account and a
  failing silent request it throws \<^verbatim>\<open>Silent token acquisition failed\<close>, having made that one
  request and no other call (no second request, no device-code flow), the cached token
  untouched; with a succeeding silent request it stores the token and the expiry of the answer
  and returns the token.
\<close>

theorem getToken_acquisition_outcomes:
  assumes "\<not> (isOAuthMode w \<and> truthy_string (oauthToken w))"
    and "\<not> (truthy_string (accessToken w) \<and> truthy_number (tokenExpiry w)
            \<and> number_gt (tokenExpiry w) now \<and> \<not> forceRefresh)"
  shows "(fst (getCurrentAccount w) = None \<longrightarrow>
            getToken E forceRefresh now w =
              (Inl (Error ''No valid token found''), record_call GetAllAccounts w)) \<and>
         (\<forall>a e m. fst (getCurrentAccount w) = Some a \<and>
                  msal_acquireTokenSilent E a (scopes w) (msalApp w) = (Inl e, m) \<longrightarrow>
            getToken E forceRefresh now w =
              (Inl (Error ''Silent token acquisition failed''),
               w\<lparr>msalApp := m, trace := trace w @ [GetAllAccounts, AcquireTokenSilent a (scopes w)]\<rparr>)) \<and>
         (\<forall>a r m. fst (getCurrentAccount w) = Some a \<and>
                  msal_acquireTokenSilent E a (scopes w) (msalApp w) = (Inr r, m) \<longrightarrow>
            getToken E forceRefresh now w =
              (Inr (Some (result_accessToken r)),
               w\<lparr>accessToken := Some (result_accessToken r), tokenExpiry := expiresOn r,
                 msalApp := m, trace := trace w @ [GetAllAccounts, AcquireTokenSilent a (scopes w)]\<rparr>))"
  using assms
  by (auto simp: getToken_def getCurrentAccount_def collaborator_defs
      split: prod.splits sum.splits option.splits list.splits if_splits)

text \<open>
  The three outcomes, with an expired cached token: a new manager without account, then
  \<open>alice\<close> with a provider that rejects and with one that answers.
\<close>

theorem getToken_acquisition_outcomes_witness:
  "fst (getToken online False 4000000 fresh) = Inl (Error ''No valid token found'') \<and>
   getToken offline False 4000000 alice_signed_in =
     (Inl (Error ''Silent token acquisition failed''),
      alice_signed_in\<lparr>trace := trace alice_signed_in @
                         [GetAllAccounts, AcquireTokenSilent alice [''Mail.ReadWrite'']]\<rparr>) \<and>
   getToken online False 4000000 alice_signed_in =
     (Inr (Some ''token-of-alice-id''),
      alice_signed_in\<lparr>trace := trace alice_signed_in @
                         [GetAllAccounts, AcquireTokenSilent alice [''Mail.ReadWrite'']]\<rparr>)"
proof -
  have p: "\<not> (isOAuthMode fresh \<and> truthy_string (oauthToken fresh))"
    "\<not> (isOAuthMode alice_signed_in \<and> truthy_string (oauthToken alice_signed_in))"
    by (simp_all add: fresh_def AuthManager_new_def alice_signed_in_def)
  have c: "\<not> (truthy_string (accessToken fresh) \<and> truthy_number (tokenExpiry fresh)
            \<and> number_gt (tokenExpiry fresh) 4000000 \<and> \<not> False)"
    "\<not> (truthy_string (accessToken alice_signed_in) \<and> truthy_number (tokenExpiry alice_signed_in)
            \<and> number_gt (tokenExpiry alice_signed_in) 4000000 \<and> \<not> False)"
    by (simp_all add: fresh_def AuthManager_new_def alice_signed_in_def truthy_string_def
        number_gt_def)
  have a: "fst (getCurrentAccount fresh) = None"
    "fst (getCurrentAccount alice_signed_in) = Some alice"
    by (simp_all add: getCurrentAccount_def getAllAccounts_def truthy_string_def record_call_def
        fresh_def AuthManager_new_def alice_signed_in_def alice_def)
  have s: "msal_acquireTokenSilent offline alice (scopes alice_signed_in) (msalApp alice_signed_in) =
             (Inl (Error ''network unreachable''), msalApp alice_signed_in)"
    "msal_acquireTokenSilent online alice (scopes alice_signed_in) (msalApp alice_signed_in) =
             (Inr (token_for alice), msalApp alice_signed_in)"
    by (simp_all add: offline_def online_def)
  have v: "token_for alice = \<lparr>result_accessToken = ''token-of-alice-id'',
       expiresOn = Some (Num 3600000), result_account = Some alice\<rparr>"
    "scopes alice_signed_in = [''Mail.ReadWrite'']"
    "accessToken alice_signed_in = Some ''token-of-alice-id''"
    "tokenExpiry alice_signed_in = Some (Num 3600000)"
    by (simp_all add: token_for_def alice_def alice_signed_in_def)
  from getToken_acquisition_outcomes [OF p(1) c(1), of online] a(1)
  have 1: "fst (getToken online False 4000000 fresh) = Inl (Error ''No valid token found'')"
    by simp
  from getToken_acquisition_outcomes [OF p(2) c(2), of offline] a(2) s(1)
  have 2: "getToken offline False 4000000 alice_signed_in =
     (Inl (Error ''Silent token acquisition failed''),
      alice_signed_in\<lparr>trace := trace alice_signed_in @
                         [GetAllAccounts, AcquireTokenSilent alice [''Mail.ReadWrite'']]\<rparr>)"
    by (simp add: v(2))
  from getToken_acquisition_outcomes [OF p(2) c(2), of online] a(2) s(2)
  have 3: "getToken online False 4000000 alice_signed_in =
     (Inr (Some ''token-of-alice-id''),
      alice_signed_in\<lparr>trace := trace alice_signed_in @
                         [GetAllAccounts, AcquireTokenSilent alice [''Mail.ReadWrite'']]\<rparr>)"
    by (simp add: v)
  from 1 2 3 show ?thesis by simp
qed

text \<open>
  C2 as stated fails for an injected token that is the empty string: \<^verbatim>\<open>setOAuthToken('')\<close>
  sets the mode, but the first test of \<^verbatim>\<open>getToken\<close> also asks the token to be truthy. The
  call goes on to the provider and returns the token of \<open>alice\<close>.
\<close>

theorem getToken_ignores_empty_injected_token:
  "isOAuthMode (setOAuthToken [] alice_signed_in) \<and>
   oauthToken (setOAuthToken [] alice_signed_in) = Some [] \<and>
   fst (getToken online True 0 (setOAuthToken [] alice_signed_in)) = Inr (Some ''token-of-alice-id'') \<and>
   trace (snd (getToken online True 0 (setOAuthToken [] alice_signed_in))) =
     trace alice_signed_in @ [GetAllAccounts, AcquireTokenSilent alice [''Mail.ReadWrite'']]"
  by (simp add: getToken_def getCurrentAccount_def setOAuthToken_def truthy_string_def
      collaborator_defs example_defs)

text \<open>
  C2, amended. While the manager is in the injected-token mode and the injected token is not
  the empty string, \<^verbatim>\<open>getToken\<close> returns that token as it is, for every \<open>forceRefresh\<close>, every
  time and every cached token, and changes nothing: no field, and no call to a collaborator.
\<close>

theorem getToken_returns_injected_token:
  "isOAuthMode w \<Longrightarrow> oauthToken w = Some token \<Longrightarrow> token \<noteq> [] \<Longrightarrow>
     getToken E forceRefresh now w = (Inr (Some token), w)"
  by (simp add: getToken_def truthy_string_def)

text \<open>With \<open>forceRefresh\<close>, a cached token of \<open>alice\<close> and a provider that would reject.\<close>

theorem getToken_returns_injected_token_witness:
  "isOAuthMode (setOAuthToken ''injected'' alice_signed_in) \<and>
   oauthToken (setOAuthToken ''injected'' alice_signed_in) = Some ''injected'' \<and>
   getToken offline True 0 (setOAuthToken ''injected'' alice_signed_in) =
     (Inr (Some ''injected''), setOAuthToken ''injected'' alice_signed_in)"
proof -
  have m: "isOAuthMode (setOAuthToken ''injected'' alice_signed_in)"
    and t: "oauthToken (setOAuthToken ''injected'' alice_signed_in) = Some ''injected''"
    by (simp_all add: setOAuthToken_def)
  have n: "''injected'' \<noteq> []" by simp
  from m t getToken_returns_injected_token [OF m t n, of offline True 0] show ?thesis by simp
qed

text \<open>
  C10. Every call of \<^verbatim>\<open>getToken\<close> leaves the vault and the files as they were and makes no
  call to the vault; the only fields it can change are the cached token, its expiry and the
  provider's cache (and the list of calls grows).
\<close>

theorem getToken_persists_nothing:
  "vault (snd (getToken E forceRefresh now w)) = vault w \<and>
   files (snd (getToken E forceRefresh now w)) = files w \<and>
   filter is_vault_call (trace (snd (getToken E forceRefresh now w))) =
     filter is_vault_call (trace w) \<and>
   (snd (getToken E forceRefresh now w))
     \<lparr>accessToken := accessToken w, tokenExpiry := tokenExpiry w,
      msalApp := msalApp w, trace := trace w\<rparr> = w"
  by (auto simp: getToken_def getCurrentAccount_def collaborator_defs is_vault_call_def
      split: prod.splits sum.splits option.splits list.splits)

text \<open>A successful silent request for \<open>alice\<close>: her vault entries are the same afterwards.\<close>

theorem getToken_persists_nothing_witness:
  "fst (getToken online True 0 alice_signed_in) = Inr (Some ''token-of-alice-id'') \<and>
   vault (snd (getToken online True 0 alice_signed_in)) = vault alice_signed_in \<and>
   files (snd (getToken online True 0 alice_signed_in)) = files alice_signed_in"
proof -
  have "fst (getToken online True 0 alice_signed_in) = Inr (Some ''token-of-alice-id'')"
    by (simp add: getToken_def getCurrentAccount_def truthy_string_def collaborator_defs
        example_defs)
  with getToken_persists_nothing [of online True 0 alice_signed_in] show ?thesis by simp
qed

section \<open>Accounts: \<^verbatim>\<open>selectAccount\<close>, \<^verbatim>\<open>removeAccount\<close>, \<^verbatim>\<open>getTokenForAccount\<close>\<close>

lemma find_unknown:
  "accountId \<notin> homeAccountId ` set accs \<Longrightarrow> find (\<lambda>acc. homeAccountId acc = accountId) accs = None"
  by (auto simp: find_None_iff)

text \<open>
  C9. For an id that no listed account has, \<^verbatim>\<open>selectAccount\<close> and \<^verbatim>\<open>removeAccount\<close> return
  \<^verbatim>\<open>false\<close> and \<^verbatim>\<open>getTokenForAccount\<close> throws; each has listed the accounts and done nothing
  else, so every field, the provider's cache, the vault and the files are as before.
\<close>

theorem unknown_account_false_or_thrown:
  assumes "accountId \<notin> homeAccountId ` set (accounts (msalApp w))"
  shows "selectAccount E accountId w = (Inr False, record_call GetAllAccounts w) \<and>
         removeAccount E accountId w = (Inr False, record_call GetAllAccounts w) \<and>
         getTokenForAccount E accountId w =
           (Inl (Error (''Account with ID '' @ accountId @ '' not found'')),
            record_call GetAllAccounts w)"
  using find_unknown [OF assms]
  by (simp add: selectAccount_def removeAccount_def getTokenForAccount_def listAccounts_def
      getAllAccounts_def record_call_def)

text \<open>With \<open>alice\<close> and \<open>bob\<close> signed in and an id of neither.\<close>

theorem unknown_account_false_or_thrown_witness:
  "''carol-id'' \<notin> homeAccountId ` set (accounts (msalApp both_signed_in)) \<and>
   fst (selectAccount online ''carol-id'' both_signed_in) = Inr False \<and>
   fst (removeAccount online ''carol-id'' both_signed_in) = Inr False \<and>
   fst (getTokenForAccount online ''carol-id'' both_signed_in) =
     Inl (Error ''Account with ID carol-id not found'') \<and>
   selectedAccountId (snd (selectAccount online ''carol-id'' both_signed_in)) = Some ''alice-id''"
proof -
  have h: "''carol-id'' \<notin> homeAccountId ` set (accounts (msalApp both_signed_in))"
    by (simp add: both_signed_in_def alice_def bob_def)
  from h unknown_account_false_or_thrown [OF h, of online] show ?thesis
    by (simp add: record_call_def both_signed_in_def)
qed

text \<open>
  C5 as stated fails for \<^verbatim>\<open>removeAccount\<close>. From a new manager, \<open>alice\<close> signs in and is
  selected; \<open>bob\<close> signs in, and the cached token is now the one the provider issued for
  \<open>bob\<close>, while \<open>alice\<close> stays selected. Removing \<open>bob\<close> succeeds and leaves his token and its
  expiry in place (the method clears them only when the removed id is the selected one), and
  the next \<^verbatim>\<open>getToken\<close> returns it.
\<close>

theorem removeAccount_keeps_token_of_removed_account:
  "acquireTokenByDeviceCode online fresh = (Inr (Some ''token-of-alice-id''), alice_signed_in) \<and>
   acquireTokenByDeviceCode online alice_signed_in = (Inr (Some ''token-of-bob-id''), both_signed_in) \<and>
   fst (removeAccount online ''bob-id'' both_signed_in) = Inr True \<and>
   accounts (msalApp (snd (removeAccount online ''bob-id'' both_signed_in))) = [alice] \<and>
   accessToken (snd (removeAccount online ''bob-id'' both_signed_in)) = Some ''token-of-bob-id'' \<and>
   tokenExpiry (snd (removeAccount online ''bob-id'' both_signed_in)) = Some (Num 3600000) \<and>
   fst (getToken online False 0 (snd (removeAccount online ''bob-id'' both_signed_in))) =
     Inr (Some ''token-of-bob-id'')"
proof -
  have r: "removeAccount online ''bob-id'' both_signed_in =
      (Inr True, both_signed_in\<lparr>msalApp := \<lparr>accounts = [alice], credentials = ''+alice+bob''\<rparr>,
                    trace := trace both_signed_in @ [GetAllAccounts, RemoveAccount bob]\<rparr>)"
    by (simp add: removeAccount_def listAccounts_def collaborator_defs example_defs)
  have g: "fst (getToken online False 0
      (both_signed_in\<lparr>msalApp := \<lparr>accounts = [alice], credentials = ''+alice+bob''\<rparr>,
                    trace := trace both_signed_in @ [GetAllAccounts, RemoveAccount bob]\<rparr>)) =
      Inr (Some ''token-of-bob-id'')"
    by (simp add: getToken_def truthy_string_def truthy_number_def number_gt_def both_signed_in_def)
  show ?thesis
    using first_login second_login g by (simp add: r) (simp add: both_signed_in_def)
qed

text \<open>
  C5, amended. The cached token and its expiry are cleared whenever \<^verbatim>\<open>selectAccount\<close>
  succeeds, hence whenever it changes the selected account, and whenever \<^verbatim>\<open>removeAccount\<close>
  removes the account that is the selected one; the selection is cleared with them.
\<close>

theorem token_cleared_on_select_and_selected_removal:
  "(fst (selectAccount E accountId w) = Inr True \<longrightarrow>
      accessToken (snd (selectAccount E accountId w)) = None \<and>
      tokenExpiry (snd (selectAccount E accountId w)) = None) \<and>
   (selectedAccountId (snd (selectAccount E accountId w)) \<noteq> selectedAccountId w \<longrightarrow>
      accessToken (snd (selectAccount E accountId w)) = None \<and>
      tokenExpiry (snd (selectAccount E accountId w)) = None) \<and>
   (fst (removeAccount E accountId w) = Inr True \<and> selectedAccountId w = Some accountId \<longrightarrow>
      selectedAccountId (snd (removeAccount E accountId w)) = None \<and>
      accessToken (snd (removeAccount E accountId w)) = None \<and>
      tokenExpiry (snd (removeAccount E accountId w)) = None)"
  by (auto simp: selectAccount_def removeAccount_def listAccounts_def saveSelectedAccount_eq
      collaborator_defs split: option.splits prod.splits sum.splits if_splits)

text \<open>Selecting \<open>bob\<close> while \<open>alice\<close> is selected, and removing \<open>alice\<close> while she is.\<close>

theorem token_cleared_on_select_and_selected_removal_witness:
  "fst (selectAccount online ''bob-id'' both_signed_in) = Inr True \<and>
   selectedAccountId (snd (selectAccount online ''bob-id'' both_signed_in)) = Some ''bob-id'' \<and>
   accessToken both_signed_in = Some ''token-of-bob-id'' \<and>
   accessToken (snd (selectAccount online ''bob-id'' both_signed_in)) = None \<and>
   tokenExpiry (snd (selectAccount online ''bob-id'' both_signed_in)) = None \<and>
   fst (removeAccount online ''alice-id'' alice_signed_in) = Inr True \<and>
   selectedAccountId alice_signed_in = Some ''alice-id'' \<and>
   accessToken (snd (removeAccount online ''alice-id'' alice_signed_in)) = None \<and>
   tokenExpiry (snd (removeAccount online ''alice-id'' alice_signed_in)) = None"
proof -
  have s: "fst (selectAccount online ''bob-id'' both_signed_in) = Inr True"
    "selectedAccountId (snd (selectAccount online ''bob-id'' both_signed_in)) = Some ''bob-id''"
    by (simp_all add: selectAccount_def listAccounts_def saveSelectedAccount_eq
        collaborator_defs example_defs)
  have r: "fst (removeAccount online ''alice-id'' alice_signed_in) = Inr True"
    by (simp add: removeAccount_def listAccounts_def saveSelectedAccount_eq
        collaborator_defs example_defs)
  have sel: "selectedAccountId alice_signed_in = Some ''alice-id''"
    "accessToken both_signed_in = Some ''token-of-bob-id''"
    by (simp_all add: alice_signed_in_def both_signed_in_def)
  show ?thesis
    using token_cleared_on_select_and_selected_removal [of online "''bob-id''" both_signed_in]
      token_cleared_on_select_and_selected_removal [of online "''alice-id''" alice_signed_in]
      s r sel
    by simp
qed

section \<open>\<^verbatim>\<open>expandToWorkAccountScopes\<close>\<close>

text \<open>
  C6 as stated fails in the selection: with \<open>alice\<close> selected and \<open>bob\<close> signing in,
  \<^verbatim>\<open>acquireTokenByDeviceCode\<close> keeps \<open>alice\<close> selected, and \<^verbatim>\<open>expandToWorkAccountScopes\<close>
  selects \<open>bob\<close>.
\<close>

theorem expandToWorkAccountScopes_replaces_selection:
  "truthy_string (selectedAccountId alice_signed_in) \<and>
   selectedAccountId (snd (acquireTokenByDeviceCode online alice_signed_in)) = Some ''alice-id'' \<and>
   fst (expandToWorkAccountScopes online alice_signed_in) = Inr True \<and>
   selectedAccountId (snd (expandToWorkAccountScopes online alice_signed_in)) = Some ''bob-id''"
  by (simp add: second_login)
     (simp add: expandToWorkAccountScopes_def device_code_defs example_defs)

text \<open>
  C6, amended. When the device-code request for the full scope list throws,
  \<^verbatim>\<open>expandToWorkAccountScopes\<close> returns \<^verbatim>\<open>false\<close> and no field of the manager, vault entry or
  file has changed (the provider's cache is what the provider left). When the request
  answers, it returns \<^verbatim>\<open>true\<close>; the working scopes are the full list; the token and expiry of
  the answer are cached; the selected account is the account of the answer whenever the
  answer has one, whether or not an account was selected before, and is unchanged otherwise;
  the serialised cache is in the vault when the vault accepts it, and so is the selection
  when the answer has an account.
\<close>

theorem expandToWorkAccountScopes_effects:
  "(\<forall>e m. msal_acquireTokenByDeviceCode E (buildAllScopes (endpoints_default E)) (msalApp w) = (Inl e, m) \<longrightarrow>
      expandToWorkAccountScopes E w =
        (Inr False, w\<lparr>msalApp := m,
                      trace := trace w @ [AcquireTokenByDeviceCode (buildAllScopes (endpoints_default E))]\<rparr>)) \<and>
   (\<forall>response m.
      msal_acquireTokenByDeviceCode E (buildAllScopes (endpoints_default E)) (msalApp w) = (Inr response, m) \<longrightarrow>
      fst (expandToWorkAccountScopes E w) = Inr True \<and>
      scopes (snd (expandToWorkAccountScopes E w)) = buildAllScopes (endpoints_default E) \<and>
      accessToken (snd (expandToWorkAccountScopes E w)) = accessToken (cache_response response w) \<and>
      tokenExpiry (snd (expandToWorkAccountScopes E w)) = tokenExpiry (cache_response response w) \<and>
      selectedAccountId (snd (expandToWorkAccountScopes E w)) =
        (case response_account response of
           Some account \<Rightarrow> Some (homeAccountId account)
         | None \<Rightarrow> selectedAccountId w) \<and>
      (keytar_error E (SetPassword SERVICE_NAME TOKEN_CACHE_ACCOUNT (msal_serialize E m)) = None \<longrightarrow>
         vault (snd (expandToWorkAccountScopes E w)) (SERVICE_NAME, TOKEN_CACHE_ACCOUNT) =
           Some (msal_serialize E m)) \<and>
      (\<forall>account. response_account response = Some account \<and>
          keytar_error E (SetPassword SERVICE_NAME SELECTED_ACCOUNT_KEY
             (JSON_stringify_accountId E (Some (homeAccountId account)))) = None \<longrightarrow>
         vault (snd (expandToWorkAccountScopes E w)) (SERVICE_NAME, SELECTED_ACCOUNT_KEY) =
           Some (JSON_stringify_accountId E (Some (homeAccountId account)))))"
  by (auto simp: expandToWorkAccountScopes_def saveSelectedAccount_eq saveTokenCache_eq
      collaborator_defs cache_response_def SERVICE_NAME_def TOKEN_CACHE_ACCOUNT_def
      SELECTED_ACCOUNT_KEY_def
      split: option.splits prod.splits sum.splits if_splits)

text \<open>A rejected request with \<open>alice\<close> signed in, and an answered one on a new manager.\<close>

theorem expandToWorkAccountScopes_effects_witness:
  "expandToWorkAccountScopes offline alice_signed_in =
     (Inr False, alice_signed_in\<lparr>trace := trace alice_signed_in @
                   [AcquireTokenByDeviceCode [''Mail.ReadWrite'']]\<rparr>) \<and>
   fst (expandToWorkAccountScopes online fresh) = Inr True \<and>
   scopes (snd (expandToWorkAccountScopes online fresh)) = [''Mail.ReadWrite''] \<and>
   accessToken (snd (expandToWorkAccountScopes online fresh)) = Some ''token-of-alice-id'' \<and>
   selectedAccountId (snd (expandToWorkAccountScopes online fresh)) = Some ''alice-id'' \<and>
   vault (snd (expandToWorkAccountScopes online fresh)) (SERVICE_NAME, TOKEN_CACHE_ACCOUNT) =
     Some ''+alice'' \<and>
   vault (snd (expandToWorkAccountScopes online fresh)) (SERVICE_NAME, SELECTED_ACCOUNT_KEY) =
     Some ''accountId:alice-id''"
proof -
  have all: "buildAllScopes (endpoints_default offline) = [''Mail.ReadWrite'']"
    "buildAllScopes (endpoints_default online) = [''Mail.ReadWrite'']"
    by (simp_all add: buildAllScopes_def offline_def online_def mail_catalog_scopes)
  have f: "msal_acquireTokenByDeviceCode offline [''Mail.ReadWrite''] (msalApp alice_signed_in) =
             (Inl (Error ''device code expired''), msalApp alice_signed_in)"
    by (simp add: offline_def online_def)
  have g: "msal_acquireTokenByDeviceCode online [''Mail.ReadWrite''] (msalApp fresh) =
             (Inr (Some (token_for alice)), \<lparr>accounts = [alice], credentials = ''+alice''\<rparr>)"
    by (simp add: online_def fresh_def AuthManager_new_def)
  have v: "keytar_error online = (\<lambda>c. None)" "msal_serialize online = credentials"
    "JSON_stringify_accountId online (Some ''alice-id'') = ''accountId:alice-id''"
    by (simp_all add: online_def)
  from expandToWorkAccountScopes_effects [of offline alice_signed_in] f
  have 1: "expandToWorkAccountScopes offline alice_signed_in =
     (Inr False, alice_signed_in\<lparr>trace := trace alice_signed_in @
                   [AcquireTokenByDeviceCode [''Mail.ReadWrite'']]\<rparr>)"
    by (simp add: all)
  from expandToWorkAccountScopes_effects [of online fresh] g
  have 2: "fst (expandToWorkAccountScopes online fresh) = Inr True \<and>
   scopes (snd (expandToWorkAccountScopes online fresh)) = [''Mail.ReadWrite''] \<and>
   accessToken (snd (expandToWorkAccountScopes online fresh)) = Some ''token-of-alice-id'' \<and>
   selectedAccountId (snd (expandToWorkAccountScopes online fresh)) = Some ''alice-id'' \<and>
   vault (snd (expandToWorkAccountScopes online fresh)) (SERVICE_NAME, TOKEN_CACHE_ACCOUNT) =
     Some ''+alice'' \<and>
   vault (snd (expandToWorkAccountScopes online fresh)) (SERVICE_NAME, SELECTED_ACCOUNT_KEY) =
     Some ''accountId:alice-id''"
    by (simp add: all v cache_response_def response_account_def or_null_def token_for_def alice_def)
  from 1 2 show ?thesis by simp
qed

section \<open>\<^verbatim>\<open>logout\<close>\<close>

lemma unlink_if_exists_throws:
  "unlink_if_exists p w = (Inl (ReferenceError ''fs is not defined''), w)"
  by (simp add: unlink_if_exists_def fs_existsSync_throws await_def)

text \<open>Every call of \<^verbatim>\<open>logout\<close> throws: none returns \<^verbatim>\<open>true\<close>.\<close>

lemma logout_always_throws: "\<exists>e. fst (logout E w) = Inl e"
  by (simp add: logout_def unlink_if_exists_throws await_def getAllAccounts_def
      split: prod.splits sum.splits)

lemma removeAccounts_files: "files (snd (removeAccounts E accs w)) = files w"
  by (induction accs arbitrary: w)
     (auto simp: tokenCache_removeAccount_def record_call_def split: option.splits)

lemma delete_vault_entries_files: "files (delete_vault_entries E w) = files w"
  by (simp add: delete_vault_entries_def keytar_deletePassword_def record_call_def
      split: option.splits)

text \<open>No call of \<^verbatim>\<open>logout\<close> removes a file.\<close>

lemma logout_leaves_files: "files (snd (logout E w)) = files w"
proof -
  obtain r w1 where r: "removeAccounts E (accounts (msalApp w)) (record_call GetAllAccounts w) = (r, w1)"
    by (cases "removeAccounts E (accounts (msalApp w)) (record_call GetAllAccounts w)")
  have "files w1 = files w"
    using removeAccounts_files [of E "accounts (msalApp w)" "record_call GetAllAccounts w"]
    unfolding r by (simp add: record_call_def)
  then show ?thesis
    by (cases r)
       (simp_all add: logout_def getAllAccounts_def r await_def unlink_if_exists_throws
          delete_vault_entries_files)
qed

text \<open>
  C8, at two failing inputs. On a new manager with an old fallback file of the token cache,
  \<^verbatim>\<open>logout\<close> deletes both vault entries and then throws a \<^verbatim>\<open>ReferenceError\<close> instead of
  returning \<^verbatim>\<open>true\<close>; the file is still there. With \<open>alice\<close> signed in it throws as well,
  after it has emptied the provider's cache and cleared the token, the expiry, the selection
  and both vault entries, so that \<^verbatim>\<open>getCurrentAccount\<close> then finds no account.
\<close>

theorem logout_throws_and_keeps_files:
  "logout online fresh_with_file =
     (Inl (ReferenceError ''fs is not defined''),
      fresh_with_file\<lparr>trace := [GetAllAccounts,
         Keytar (DeletePassword SERVICE_NAME TOKEN_CACHE_ACCOUNT),
         Keytar (DeletePassword SERVICE_NAME SELECTED_ACCOUNT_KEY)]\<rparr>) \<and>
   files (snd (logout online fresh_with_file)) FALLBACK_PATH = Some ''old cache'' \<and>
   fst (logout online alice_signed_in) = Inl (ReferenceError ''fs is not defined'') \<and>
   accessToken (snd (logout online alice_signed_in)) = None \<and>
   tokenExpiry (snd (logout online alice_signed_in)) = None \<and>
   selectedAccountId (snd (logout online alice_signed_in)) = None \<and>
   vault (snd (logout online alice_signed_in)) (SERVICE_NAME, TOKEN_CACHE_ACCOUNT) = None \<and>
   vault (snd (logout online alice_signed_in)) (SERVICE_NAME, SELECTED_ACCOUNT_KEY) = None \<and>
   fst (getCurrentAccount (snd (logout online alice_signed_in))) = None"
  by (simp add: logout_def unlink_if_exists_throws delete_vault_entries_def getCurrentAccount_def
      collaborator_defs example_defs)

end
